theory Spec2Isabelle
  imports Main "HOL-Library.Monad_Syntax"
begin

section \<open>JavaScript strings\<close>

text \<open>
  A JavaScript string is a sequence of UTF-16 code units. The model uses \<^typ>\<open>string\<close>:
  a \<^typ>\<open>char\<close> stands for a code unit below 256, so the theorems speak about strings
  of such code units. Within that range the white space of \<open>trim\<close> and of the regular
  expression class for white space is TAB, LF, VT, FF, CR, SPACE and NBSP; the line terminators
  that the regular expression dot refuses are LF and CR; a word character is a letter,
  a digit or the underscore.
\<close>

definition isSpace :: "char \<Rightarrow> bool" where
  "isSpace c = (c = CHR 0x09 \<or> c = CHR 0x0A \<or> c = CHR 0x0B \<or> c = CHR 0x0C \<or>
                c = CHR 0x0D \<or> c = CHR 0x20 \<or> c = CHR 0xA0)"

definition isLineTerminator :: "char \<Rightarrow> bool" where
  "isLineTerminator c = (c = CHR 0x0A \<or> c = CHR 0x0D)"

definition isWord :: "char \<Rightarrow> bool" where
  "isWord c = (let n = (of_char c :: nat) in
     (48 \<le> n \<and> n \<le> 57) \<or> (65 \<le> n \<and> n \<le> 90) \<or> n = 95 \<or> (97 \<le> n \<and> n \<le> 122))"

text \<open>\<open>s.trim()\<close>\<close>

definition trim :: "string \<Rightarrow> string" where
  "trim s = rev (dropWhile isSpace (rev (dropWhile isSpace s)))"

text \<open>\<open>s.startsWith(p)\<close> and \<open>s.endsWith(p)\<close>\<close>

fun startsWith :: "string \<Rightarrow> string \<Rightarrow> bool" where
  "startsWith s [] = True"
| "startsWith [] (p # ps) = False"
| "startsWith (c # cs) (p # ps) = (c = p \<and> startsWith cs ps)"

definition endsWith :: "string \<Rightarrow> string \<Rightarrow> bool" where
  "endsWith s p = startsWith (rev s) (rev p)"

text \<open>\<open>s.includes(p)\<close>: \<open>p\<close> occurs somewhere in \<open>s\<close>.\<close>

fun str_includes :: "string \<Rightarrow> string \<Rightarrow> bool" where
  "str_includes [] p = (p = [])"
| "str_includes (c # cs) p = (startsWith (c # cs) p \<or> str_includes cs p)"

text \<open>\<open>s.split(sep)\<close> for a one-character separator; the empty string gives one empty part.\<close>

fun split :: "string \<Rightarrow> char \<Rightarrow> string list" where
  "split [] sep = [[]]"
| "split (c # cs) sep =
     (if c = sep then [] # split cs sep
      else (case split cs sep of [] \<Rightarrow> [[c]] | part # parts \<Rightarrow> (c # part) # parts))"

text \<open>\<open>parts.join(sep)\<close>\<close>

fun join :: "string list \<Rightarrow> string \<Rightarrow> string" where
  "join [] sep = []"
| "join [part] sep = part"
| "join (part # next # parts) sep = part @ sep @ join (next # parts) sep"

section \<open>FileMapper\<close>

text \<open>
  \<open>FileMapping\<close> of \<open>lib/types.ts\<close>. \<open>mapFile\<close> returns a partial \<open>FileMapping\<close>: it
  fills four fields and leaves \<open>requiredModules\<close> and \<open>platforms\<close> undefined, which is
  \<open>None\<close> here. A platform is a string at run time (\<open>'linux' | 'darwin' | 'windows'\<close> by
  its type, an unchecked cast of the request's value in the routes).
\<close>

type_synonym Platform = string

record PartialFileMapping =
  p_sourcePath :: string
  p_deployPath :: string
  p_isTemplate :: bool
  p_isExecutable :: bool
  p_requiredModules :: "string list option"
  p_platforms :: "Platform list option"

record FileMapping =
  sourcePath :: string
  deployPath :: string
  isTemplate :: bool
  isExecutable :: bool
  requiredModules :: "string list"
  platforms :: "Platform list"

text \<open>The three anchored replacements of \<open>mapFile\<close>: a leading \<open>executable_\<close> removed,
  a trailing \<open>.tmpl\<close> removed, a leading \<open>dot_\<close> replaced by a dot.\<close>

definition strip_executable :: "string \<Rightarrow> string" where
  "strip_executable filename =
     (if startsWith filename ''executable_'' then drop 11 filename else filename)"

definition strip_tmpl :: "string \<Rightarrow> string" where
  "strip_tmpl filename =
     (if endsWith filename ''.tmpl'' then take (length filename - 5) filename else filename)"

definition replace_dot :: "string \<Rightarrow> string" where
  "replace_dot part = (if startsWith part ''dot_'' then ''.'' @ drop 4 part else part)"

definition mapFile :: "string \<Rightarrow> PartialFileMapping" where
  "mapFile srcPath =
     (let pathParts = split srcPath CHR ''/'';
          filename0 = last pathParts;
          dirPath = butlast pathParts;
          isExec = startsWith filename0 ''executable_'';
          filename1 = (if isExec then strip_executable filename0 else filename0);
          isTmpl = endsWith filename1 ''.tmpl'';
          filename2 = (if isTmpl then strip_tmpl filename1 else filename1);
          modifiedPath = join (dirPath @ [filename2]) ''/'';
          mapped = join (map replace_dot (split modifiedPath CHR ''/'')) ''/'';
          deploy = (if \<not> startsWith mapped ''/'' \<and> \<not> startsWith mapped ''.'' then ''~/'' @ mapped
                    else if startsWith mapped ''.'' then ''~/'' @ mapped
                    else mapped)
      in \<lparr> p_sourcePath = srcPath, p_deployPath = deploy, p_isTemplate = isTmpl,
           p_isExecutable = isExec, p_requiredModules = None, p_platforms = None \<rparr>)"

section \<open>The regular expressions of the parsers\<close>

text \<open>
  The parsers search a string with a handful of fixed regular expressions. Each is
  modelled by a matcher for one start position and \<open>search\<close>, which returns the match of
  the leftmost start position that has one, as \<open>String.prototype.match\<close> does for a
  regular expression without the global flag.

  Every quantified class of these expressions but one is greedy and followed by a character
  outside the class (white space before a dot, a quote or a brace, word characters before a
  dot or a quote) or by nothing, so giving characters back can never help and the longest run
  is the only choice. The exception is the lazy group of \<open>extractCondition\<close>, whose
  backtracking is written out below.
\<close>

fun search :: "(string \<Rightarrow> 'a option) \<Rightarrow> string \<Rightarrow> 'a option" where
  "search m [] = m []"
| "search m (c # cs) = (case m (c # cs) of Some r \<Rightarrow> Some r | None \<Rightarrow> search m cs)"

text \<open>A literal; one or more white space characters; one or more word characters (the
  captured group and the rest).\<close>

definition lit :: "string \<Rightarrow> string \<Rightarrow> string option" where
  "lit p s = (if startsWith s p then Some (drop (length p) s) else None)"

definition spaces1 :: "string \<Rightarrow> string option" where
  "spaces1 s = (if takeWhile isSpace s = [] then None else Some (dropWhile isSpace s))"

definition word1 :: "string \<Rightarrow> (string \<times> string) option" where
  "word1 s = (if takeWhile isWord s = [] then None
              else Some (takeWhile isWord s, dropWhile isWord s))"

definition dquote :: string where
  "dquote = [CHR 0x22]"

text \<open>\<open>eq\<close>, white space, \<open>.chezmoi.os\<close>, white space, and a quoted word, which is the
  group.\<close>

definition re_eq_os_at :: "string \<Rightarrow> string option" where
  "re_eq_os_at s =
     lit ''eq'' s \<bind> spaces1 \<bind> lit ''.chezmoi.os'' \<bind> spaces1 \<bind> lit dquote \<bind> word1 \<bind>
       (\<lambda>(w, r). lit dquote r \<bind> (\<lambda>_. Some w))"

text \<open>\<open>.modules.\<close>, a word (group 1), \<open>.enabled\<close>.\<close>

definition re_enabled_at :: "string \<Rightarrow> string option" where
  "re_enabled_at s =
     lit ''.modules.'' s \<bind> word1 \<bind> (\<lambda>(w, r). lit ''.enabled'' r \<bind> (\<lambda>_. Some w))"

text \<open>\<open>.modules.\<close>, a word (group 1), a dot, a word (group 2).\<close>

definition re_property_at :: "string \<Rightarrow> (string \<times> string) option" where
  "re_property_at s =
     lit ''.modules.'' s \<bind> word1 \<bind>
       (\<lambda>(w, r). lit ''.'' r \<bind> word1 \<bind> (\<lambda>(v, _). Some (w, v)))"

text \<open>The same two after \<open>not\<close> and white space.\<close>

definition re_not_enabled_at :: "string \<Rightarrow> string option" where
  "re_not_enabled_at s = lit ''not'' s \<bind> spaces1 \<bind> re_enabled_at"

definition re_not_property_at :: "string \<Rightarrow> (string \<times> string) option" where
  "re_not_property_at s = lit ''not'' s \<bind> spaces1 \<bind> re_property_at"

text \<open>
  The expression of \<open>extractCondition\<close>: two opening braces, an optional hyphen, any white
  space, \<open>if\<close>, white space, a lazy group of one or more characters that are not line
  terminators, any white space, two closing braces.

  The lazy group takes one character and stops as soon as white space and the closing braces
  follow; otherwise it takes one more. When no length works, the white space before the
  group gives back one character at a time (\<open>spaces_then_group\<close>), so that the group may
  begin with white space.
\<close>

definition closes :: "string \<Rightarrow> bool" where
  "closes s = startsWith (dropWhile isSpace s) ''}}''"

fun lazy_group :: "string \<Rightarrow> string \<Rightarrow> string option" where
  "lazy_group acc [] = None"
| "lazy_group acc (c # cs) =
     (if isLineTerminator c then None
      else if closes cs then Some (acc @ [c])
      else lazy_group (acc @ [c]) cs)"

fun spaces_then_group :: "nat \<Rightarrow> string \<Rightarrow> string option" where
  "spaces_then_group 0 s = None"
| "spaces_then_group (Suc k) s =
     (case lazy_group [] (drop (Suc k) s) of
        Some g \<Rightarrow> Some g
      | None \<Rightarrow> spaces_then_group k s)"

definition re_if_at :: "string \<Rightarrow> string option" where
  "re_if_at s =
     lit ''{{'' s \<bind> (\<lambda>r. Some (if startsWith r ''-'' then drop 1 r else r)) \<bind>
       (\<lambda>r. lit ''if'' (dropWhile isSpace r)) \<bind>
       (\<lambda>r. spaces_then_group (length (takeWhile isSpace r)) r)"

section \<open>The configuration\<close>

text \<open>
  \<open>DotfilesConfig\<close> of \<open>lib/types.ts\<close>, as \<open>yaml.load\<close> delivers it. A value of
  the configuration file is null, a boolean, a number (a whole number, or one of the three
  that are not finite), a string or a timestamp, which the loader turns into a \<open>Date\<close>
  with the ISO text given here. \<open>truthy\<close> is the conversion to a boolean that \<open>!\<close>,
  \<open>!!\<close>, \<open>&&\<close> and \<open>every\<close> apply; a missing property reads as \<open>undefined\<close>, which
  is falsy. A property whose value is itself a mapping or a sequence is not in the model:
  no code of the repository reads inside one.
\<close>

datatype jsval =
  JNull | JBool bool | JNum int | JNaN | JInfinity | JNegInfinity | JStr string | JDate string

fun truthy :: "jsval \<Rightarrow> bool" where
  "truthy JNull = False"
| "truthy (JBool b) = b"
| "truthy (JNum n) = (n \<noteq> 0)"
| "truthy JNaN = False"
| "truthy JInfinity = True"
| "truthy JNegInfinity = True"
| "truthy (JStr s) = (s \<noteq> [])"
| "truthy (JDate stamp) = True"

definition truthy_opt :: "jsval option \<Rightarrow> bool" where
  "truthy_opt v = (case v of None \<Rightarrow> False | Some x \<Rightarrow> truthy x)"

text \<open>
  The module map takes a module name to the value of the module. The interface declares
  an object for each named module and \<open>any\<close> for every other name, so the value is either
  an object, with its own properties by name (\<open>enabled\<close> among them when it is there), or
  a value that is no such object: null, a primitive, a timestamp.

  \<open>object_properties\<close> is the test \<open>moduleConfig && typeof moduleConfig === 'object'\<close>
  together with the own properties that the test guards: null is falsy, a primitive is no
  object, a timestamp is an object without own properties.
\<close>

type_synonym ModuleState = "string \<rightharpoonup> jsval"

datatype ModuleValue = ModuleObject ModuleState | ModuleScalar jsval

fun object_properties :: "ModuleValue \<Rightarrow> ModuleState option" where
  "object_properties (ModuleObject props) = Some props"
| "object_properties (ModuleScalar (JDate stamp)) = Some Map.empty"
| "object_properties (ModuleScalar v) = None"

record GitUser =
  name :: string
  email :: string

record GitHub =
  user :: string
  repo :: string

record RepoPolicy =
  protectedBranches :: "string list"
  requiredApprovals :: jsval
  requiredChecks :: "string list"

record AgeConfig =
  identity :: string
  recipient :: string

record ConfigData =
  gitUser :: GitUser
  windows :: bool
  github :: "GitHub option"
  repoPolicy :: "RepoPolicy option"
  modules :: "string \<rightharpoonup> ModuleValue"

record DotfilesConfig =
  data :: ConfigData
  encryption :: string
  age :: AgeConfig

text \<open>
  The routes and the evaluators read the own properties of the configuration: the maps
  hold them. What the same expressions would read through a name that every object
  inherits from the host (\<open>constructor\<close>, \<open>toString\<close> and the like) is not part of
  these reads. The one place of the repository that writes through such a name is
  \<open>applyModuleChanges\<close>, and there the host objects are modelled (below). The reads
  are those of a host whose \<open>Object.prototype\<close> has no property \<open>enabled\<close>: once a
  request has put it there, a module object without an own \<open>enabled\<close> would read it.

  \<open>config.data.modules[name]?.enabled\<close> and \<open>moduleConfig && moduleConfig.enabled\<close>, as a
  condition: null and a primitive have no own property \<open>enabled\<close>.
\<close>

definition module_enabled :: "DotfilesConfig \<Rightarrow> string \<Rightarrow> bool" where
  "module_enabled config moduleName =
     (case modules (data config) moduleName of
        None \<Rightarrow> False
      | Some moduleConfig \<Rightarrow>
          (case object_properties moduleConfig of
             None \<Rightarrow> False
           | Some props \<Rightarrow> truthy_opt (props ''enabled'')))"

section \<open>IgnoreParser\<close>

text \<open>
  \<open>IgnoreParser.evaluateCondition\<close>: five guarded forms tried in order, each falling
  through to the next when its regular expression finds nothing, and \<open>true\<close> at the end.
  A property branch that finds its module missing, or no object, returns without looking
  further: \<open>true\<close> after \<open>not\<close>, \<open>false\<close> otherwise.
\<close>

definition IgnoreParser_evaluateCondition :: "string \<Rightarrow> DotfilesConfig \<Rightarrow> Platform \<Rightarrow> bool" where
  "IgnoreParser_evaluateCondition condition config platform =
    (case (if str_includes condition ''eq .chezmoi.os'' then search re_eq_os_at condition else None) of
       Some targetPlatform \<Rightarrow> platform = targetPlatform
     | None \<Rightarrow>
    (case (if str_includes condition ''not .modules.'' \<and> \<not> str_includes condition ''.enabled''
           then search re_not_property_at condition else None) of
       Some (moduleName, propertyName) \<Rightarrow>
         (case Option.bind (modules (data config) moduleName) object_properties of
            Some props \<Rightarrow> \<not> truthy_opt (props propertyName)
          | None \<Rightarrow> True)
     | None \<Rightarrow>
    (case (if str_includes condition ''not .modules.''
           then search re_not_enabled_at condition else None) of
       Some moduleName \<Rightarrow> \<not> module_enabled config moduleName
     | None \<Rightarrow>
    (case (if str_includes condition ''.modules.'' \<and> \<not> str_includes condition ''.enabled''
           then search re_property_at condition else None) of
       Some (moduleName, propertyName) \<Rightarrow>
         (case Option.bind (modules (data config) moduleName) object_properties of
            Some props \<Rightarrow> truthy_opt (props propertyName)
          | None \<Rightarrow> False)
     | None \<Rightarrow>
    (case (if str_includes condition ''.modules.''
           then search re_enabled_at condition else None) of
       Some moduleName \<Rightarrow> module_enabled config moduleName
     | None \<Rightarrow> True)))))"

text \<open>\<open>extractCondition\<close>: the trimmed group of the match, or the empty string.\<close>

definition extractCondition :: "string \<Rightarrow> string" where
  "extractCondition line = (case search re_if_at line of Some g \<Rightarrow> trim g | None \<Rightarrow> [])"

text \<open>
  The condition stack is an array with its top at the end: \<open>push\<close> appends, \<open>pop\<close> removes
  the last element. \<open>top\<close> reads \<open>stack[stack.length - 1]\<close> and \<open>below_top\<close> reads
  \<open>stack[stack.length - 2]\<close>, as conditions: out of range they give \<open>undefined\<close>, which
  is falsy.
\<close>

definition top :: "bool list \<Rightarrow> bool" where
  "top stack = (if stack = [] then False else last stack)"

definition below_top :: "bool list \<Rightarrow> bool" where
  "below_top stack = (if length stack < 2 then False else last (butlast stack))"

definition handleConditional :: "string \<Rightarrow> bool list \<Rightarrow> DotfilesConfig \<Rightarrow> Platform \<Rightarrow> bool list" where
  "handleConditional line stack config platform =
     (let trimmed = trim line in
      if str_includes trimmed ''{{- if '' then
        (let condition = extractCondition trimmed;
             result = IgnoreParser_evaluateCondition condition config platform;
             parentState = top stack
         in stack @ [parentState \<and> result])
      else if str_includes trimmed ''{{- else'' then
        (if length stack > 1 then
           (let parentState = below_top stack;
                currentState = last stack
            in butlast stack @ [parentState \<and> \<not> currentState])
         else stack)
      else if str_includes trimmed ''{{- end'' then
        (if length stack > 1 then butlast stack else stack)
      else stack)"

text \<open>
  The stack after each \<open>push\<close> and each \<open>pop\<close> of one call of \<open>handleConditional\<close>, in
  the order of the source: one \<open>push\<close> for \<open>if\<close>, a \<open>pop\<close> and a \<open>push\<close> for
  \<open>else\<close>, one \<open>pop\<close> for \<open>end\<close>, and nothing where the call leaves the stack alone.
\<close>

definition conditional_steps ::
    "string \<Rightarrow> bool list \<Rightarrow> DotfilesConfig \<Rightarrow> Platform \<Rightarrow> bool list list" where
  "conditional_steps line stack config platform =
     (let trimmed = trim line in
      if str_includes trimmed ''{{- if '' then
        [stack @ [top stack \<and>
           IgnoreParser_evaluateCondition (extractCondition trimmed) config platform]]
      else if str_includes trimmed ''{{- else'' then
        (if length stack > 1 then
           [butlast stack, butlast stack @ [below_top stack \<and> \<not> last stack]]
         else [])
      else if str_includes trimmed ''{{- end'' then
        (if length stack > 1 then [butlast stack] else [])
      else [])"

text \<open>
  \<open>IgnoreParser.parse\<close>: the loop over the lines carries the condition stack and the
  patterns collected so far. \<open>parse_line\<close> is one turn of the loop, \<open>parse_states\<close> lists
  the state before the first line and after every line.
\<close>

record ParseState =
  conditionStack :: "bool list"
  patterns :: "string list"

definition parse_line :: "DotfilesConfig \<Rightarrow> Platform \<Rightarrow> ParseState \<Rightarrow> string \<Rightarrow> ParseState" where
  "parse_line config platform st line =
     (let trimmed = trim line in
      if trimmed = [] then st
      else if startsWith trimmed ''{{-'' then
        st\<lparr>conditionStack := handleConditional trimmed (conditionStack st) config platform\<rparr>
      else if startsWith trimmed ''#'' then st
      else if top (conditionStack st) \<and> trimmed \<noteq> [] then
        st\<lparr>patterns := patterns st @ [trimmed]\<rparr>
      else st)"

definition parse_init :: ParseState where
  "parse_init = \<lparr>conditionStack = [True], patterns = []\<rparr>"

fun parse_states :: "DotfilesConfig \<Rightarrow> Platform \<Rightarrow> ParseState \<Rightarrow> string list \<Rightarrow> ParseState list" where
  "parse_states config platform st [] = [st]"
| "parse_states config platform st (line # lines) =
     st # parse_states config platform (parse_line config platform st line) lines"

definition IgnoreParser_parse :: "string \<Rightarrow> DotfilesConfig \<Rightarrow> Platform \<Rightarrow> string list" where
  "IgnoreParser_parse ignoreContent config platform =
     patterns (foldl (parse_line config platform) parse_init (split ignoreContent CHR 0x0A))"

definition getIgnorePatterns :: "string \<Rightarrow> DotfilesConfig \<Rightarrow> Platform \<Rightarrow> string list" where
  "getIgnorePatterns ignoreContent config platform = IgnoreParser_parse ignoreContent config platform"

section \<open>TemplateParser\<close>

text \<open>
  \<open>splitExpression\<close>: the loop over the characters carries the parts found so far, the
  current part and the quote flag; \<open>splitLoop\<close> is the loop, \<open>splitExpression\<close> adds
  what follows it.
\<close>

fun splitLoop :: "string \<Rightarrow> string list \<Rightarrow> string \<Rightarrow> bool \<Rightarrow> string list \<times> string" where
  "splitLoop [] parts current inQuotes = (parts, current)"
| "splitLoop (c # cs) parts current inQuotes =
     (if c = CHR 0x22 then splitLoop cs parts (current @ [c]) (\<not> inQuotes)
      else if c = CHR '' '' \<and> \<not> inQuotes \<and> trim current \<noteq> [] then
        (if startsWith current ''.'' \<or> startsWith current ''eq'' \<or> startsWith current ''not''
         then splitLoop cs (parts @ [trim current]) [] inQuotes
         else splitLoop cs parts (current @ [c]) inQuotes)
      else splitLoop cs parts (current @ [c]) inQuotes)"

definition splitExpression :: "string \<Rightarrow> string list" where
  "splitExpression expr =
     (case splitLoop expr [] [] False of
        (parts, current) \<Rightarrow>
          (let parts' = (if trim current \<noteq> [] then parts @ [trim current] else parts)
           in if length parts' > 0 then parts' else [expr]))"

text \<open>
  The forms of \<open>TemplateParser.evaluateCondition\<close> that do not recurse, on the trimmed
  expression. The source returns the value of the property itself, \<open>false\<close> when it is
  missing; every caller uses it as a condition, and the model returns its truthiness. A
  property of a module that is not there, or is no object, falls through to \<open>true\<close>.
\<close>

definition evaluateAtom :: "string \<Rightarrow> DotfilesConfig \<Rightarrow> Platform \<Rightarrow> bool" where
  "evaluateAtom trimmed config platform =
    (case (if str_includes trimmed ''eq .chezmoi.os'' then search re_eq_os_at trimmed else None) of
       Some targetPlatform \<Rightarrow> platform = targetPlatform
     | None \<Rightarrow>
    (case (if str_includes trimmed ''.modules.'' then search re_enabled_at trimmed else None) of
       Some moduleName \<Rightarrow> module_enabled config moduleName
     | None \<Rightarrow>
    (case (if startsWith trimmed ''.modules.'' then search re_property_at trimmed else None) of
       Some (moduleName, propertyName) \<Rightarrow>
         (case Option.bind (modules (data config) moduleName) object_properties of
            Some props \<Rightarrow> truthy_opt (props propertyName)
          | None \<Rightarrow> True)
     | None \<Rightarrow> True)))"

lemma length_trim_le: "length (trim s) \<le> length s"
  using length_dropWhile_le [of isSpace "rev (dropWhile isSpace s)"]
    length_dropWhile_le [of isSpace s]
  by (simp add: trim_def)

lemma startsWith_length: "startsWith s p \<Longrightarrow> length p \<le> length s"
  by (induction s p rule: startsWith.induct) auto

lemma splitLoop_length:
  "(\<forall>p \<in> set parts. length p \<le> n) \<Longrightarrow> length current + length cs \<le> n \<Longrightarrow>
   (\<forall>p \<in> set (fst (splitLoop cs parts current inQuotes)). length p \<le> n) \<and>
   length (snd (splitLoop cs parts current inQuotes)) \<le> n"
proof (induction cs parts current inQuotes rule: splitLoop.induct)
  case (1 parts current inQuotes)
  then show ?case by simp
next
  case (2 c cs parts current inQuotes)
  have t: "length (trim current) \<le> n"
    using length_trim_le [of current] "2.prems"(2) by simp
  show ?case
    using 2 t by (auto split: if_splits)
qed

lemma splitExpression_length:
  assumes "part \<in> set (splitExpression expr)"
  shows "length part \<le> length expr"
proof -
  obtain parts current where sl: "splitLoop expr [] [] False = (parts, current)"
    by (cases "splitLoop expr [] [] False")
  have "(\<forall>p \<in> set (fst (splitLoop expr [] [] False)). length p \<le> length expr) \<and>
        length (snd (splitLoop expr [] [] False)) \<le> length expr"
    by (rule splitLoop_length) simp_all
  with sl have b: "\<forall>p \<in> set parts. length p \<le> length expr" "length current \<le> length expr"
    by simp_all
  have "length (trim current) \<le> length expr"
    using length_trim_le [of current] b(2) by simp
  with assms b(1) sl show ?thesis
    by (auto simp: splitExpression_def Let_def split: if_splits)
qed

lemma length_operand:
  assumes "startsWith (trim e) p" "length p = n" "0 < n"
  shows "length (trim (drop n (trim e))) < length e"
proof -
  have "length (trim (drop n (trim e))) \<le> length (trim e) - n"
    using length_trim_le [of "drop n (trim e)"] by simp
  moreover have "n \<le> length (trim e)"
    using startsWith_length [OF assms(1)] assms(2) by simp
  moreover have "length (trim e) \<le> length e"
    by (rule length_trim_le)
  ultimately show ?thesis
    using assms(3) by linarith
qed

text \<open>
  \<open>TemplateParser.evaluateCondition\<close>. Every recursive call is on a shorter string, so
  the evaluation ends on every expression.
\<close>

function TemplateParser_evaluateCondition :: "string \<Rightarrow> DotfilesConfig \<Rightarrow> Platform \<Rightarrow> bool" where
  "TemplateParser_evaluateCondition expression config platform =
     (if startsWith (trim expression) ''not '' then
        \<not> TemplateParser_evaluateCondition (trim (drop 4 (trim expression))) config platform
      else if startsWith (trim expression) ''and '' then
        list_all (\<lambda>part. TemplateParser_evaluateCondition part config platform)
          (splitExpression (trim (drop 4 (trim expression))))
      else if startsWith (trim expression) ''or '' then
        list_ex (\<lambda>part. TemplateParser_evaluateCondition part config platform)
          (splitExpression (trim (drop 3 (trim expression))))
      else evaluateAtom (trim expression) config platform)"
  by pat_completeness auto
termination
proof (relation "measure (\<lambda>(expression, config, platform). length expression)")
  show "wf (measure (\<lambda>(expression, config, platform). length expression))"
    by simp
next
  fix expression :: string and config :: DotfilesConfig and platform :: Platform
  assume "startsWith (trim expression) ''not ''"
  then show "((trim (drop 4 (trim expression)), config, platform), expression, config, platform)
      \<in> measure (\<lambda>(expression, config, platform). length expression)"
    using length_operand [of expression "''not ''" 4] by simp
next
  fix expression :: string and config :: DotfilesConfig and platform :: Platform and part
  assume "startsWith (trim expression) ''and ''"
    and "part \<in> set (splitExpression (trim (drop 4 (trim expression))))"
  then show "((part, config, platform), expression, config, platform)
      \<in> measure (\<lambda>(expression, config, platform). length expression)"
    using length_operand [of expression "''and ''" 4]
      splitExpression_length [of part "trim (drop 4 (trim expression))"] by simp
next
  fix expression :: string and config :: DotfilesConfig and platform :: Platform and part
  assume "startsWith (trim expression) ''or ''"
    and "part \<in> set (splitExpression (trim (drop 3 (trim expression))))"
  then show "((part, config, platform), expression, config, platform)
      \<in> measure (\<lambda>(expression, config, platform). length expression)"
    using length_operand [of expression "''or ''" 3]
      splitExpression_length [of part "trim (drop 3 (trim expression))"] by simp
qed

section \<open>Glob patterns\<close>

text \<open>
  \<open>s.replace(/p/g, r)\<close> for a literal, non-empty \<open>p\<close>: every occurrence, left to right,
  without overlap.
\<close>

function replaceAll :: "string \<Rightarrow> string \<Rightarrow> string \<Rightarrow> string" where
  "replaceAll [] p r = []"
| "replaceAll (c # cs) p r =
     (if p \<noteq> [] \<and> startsWith (c # cs) p
      then r @ replaceAll (drop (length p) (c # cs)) p r
      else c # replaceAll cs p r)"
  by pat_completeness auto
termination
  by (relation "measure (\<lambda>(s, p, r). length s)") (auto simp: neq_Nil_conv)

text \<open>The chain of replacements that both \<open>shouldIgnore\<close> functions apply to a pattern,
  in the order of the source. The last replacement puts a backslash before every dot.\<close>

definition backslash :: char where
  "backslash = CHR 0x5C"

definition globToRegex :: "string \<Rightarrow> string" where
  "globToRegex pattern =
     replaceAll
       (replaceAll
         (replaceAll
           (replaceAll
             (replaceAll pattern ''**'' ''___DOUBLESTAR___'')
             ''*'' ''[^/]*'')
           ''___DOUBLESTAR___'' ''.*'')
         ''?'' ''.'')
       ''.'' [backslash, CHR ''.'']"

text \<open>
  The regular expression engine is the host's. The model reads the sources that a pattern
  of plain characters, stars, question marks and dots compiles to: after the opening
  anchor, a sequence of
  \<^item> \<open>[^/]*\<close>, any run of characters other than the slash,
  \<^item> an escaped dot followed by a star, any run of dots,
  \<^item> an escaped dot, one dot,
  \<^item> a plain character (printable ASCII that is no syntax character of regular
    expressions), itself,

  and a closing anchor at the very end or none. \<open>test\<close> asks whether some match exists,
  so the matcher tries both choices at a star. For every other source the result of
  the \<open>try\<close> block (the result of \<open>test\<close>, \<open>false\<close> when the constructor throws) is
  the parameter \<open>host\<close>, and the theorems hold for every \<open>host\<close>.
\<close>

datatype rx_item = Lit char | StarNotSlash | StarDot

definition syntaxChar :: "char \<Rightarrow> bool" where
  "syntaxChar c = (c \<in> set ''^$.*+?()[]{}|'' \<or> c = backslash)"

definition plainChar :: "char \<Rightarrow> bool" where
  "plainChar c = (32 \<le> (of_char c :: nat) \<and> (of_char c :: nat) \<le> 126 \<and> \<not> syntaxChar c)"

fun rx_items :: "string \<Rightarrow> (rx_item list \<times> bool) option" where
  "rx_items [] = Some ([], False)"
| "rx_items (c # cs) =
     (if c = CHR ''$'' \<and> cs = [] then Some ([], True)
      else if startsWith (c # cs) ''[^/]*'' then
        map_option (apfst (Cons StarNotSlash)) (rx_items (drop 4 cs))
      else if startsWith (c # cs) [backslash, CHR ''.'', CHR ''*''] then
        map_option (apfst (Cons StarDot)) (rx_items (drop 2 cs))
      else if startsWith (c # cs) [backslash, CHR ''.''] then
        map_option (apfst (Cons (Lit CHR ''.''))) (rx_items (drop 1 cs))
      else if plainChar c then
        map_option (apfst (Cons (Lit c))) (rx_items cs)
      else None)"

definition rx_source :: "string \<Rightarrow> (rx_item list \<times> bool) option" where
  "rx_source source = (case source of [] \<Rightarrow> None | c # cs \<Rightarrow> if c = CHR ''^'' then rx_items cs else None)"

text \<open>A match that starts at the beginning of \<open>s\<close>; with \<open>toEnd\<close> it must reach the end.\<close>

fun rx_match :: "rx_item list \<Rightarrow> bool \<Rightarrow> string \<Rightarrow> bool" where
  "rx_match [] toEnd s = (toEnd \<longrightarrow> s = [])"
| "rx_match (Lit c # items) toEnd s =
     (case s of [] \<Rightarrow> False | x # xs \<Rightarrow> x = c \<and> rx_match items toEnd xs)"
| "rx_match (StarNotSlash # items) toEnd s =
     (rx_match items toEnd s \<or>
      (case s of [] \<Rightarrow> False | x # xs \<Rightarrow> x \<noteq> CHR ''/'' \<and> rx_match (StarNotSlash # items) toEnd xs))"
| "rx_match (StarDot # items) toEnd s =
     (rx_match items toEnd s \<or>
      (case s of [] \<Rightarrow> False | x # xs \<Rightarrow> x = CHR ''.'' \<and> rx_match (StarDot # items) toEnd xs))"

definition RegExp_test :: "(string \<Rightarrow> string \<Rightarrow> bool) \<Rightarrow> string \<Rightarrow> string \<Rightarrow> bool" where
  "RegExp_test host source s =
     (case rx_source source of
        Some (items, toEnd) \<Rightarrow> rx_match items toEnd s
      | None \<Rightarrow> host source s)"

text \<open>\<open>IgnoreParser.shouldIgnore\<close> anchors the start, \<open>FileMapper.shouldIgnore\<close> both
  ends.\<close>

definition IgnoreParser_shouldIgnore ::
    "(string \<Rightarrow> string \<Rightarrow> bool) \<Rightarrow> string \<Rightarrow> string list \<Rightarrow> bool" where
  "IgnoreParser_shouldIgnore host filePath ignorePatterns =
     list_ex (\<lambda>pattern. RegExp_test host (''^'' @ globToRegex pattern) filePath) ignorePatterns"

definition FileMapper_shouldIgnore ::
    "(string \<Rightarrow> string \<Rightarrow> bool) \<Rightarrow> string \<Rightarrow> string list \<Rightarrow> bool" where
  "FileMapper_shouldIgnore host path pats =
     list_ex (\<lambda>pattern. RegExp_test host (''^'' @ globToRegex pattern @ ''$'') path) pats"

section \<open>Module and platform inference\<close>

definition inferModules :: "string \<Rightarrow> string list" where
  "inferModules srcPath =
     (if str_includes srcPath ''shell/'' \<or> str_includes srcPath ''dot_bashrc'' \<or>
         str_includes srcPath ''dot_zshrc'' then [''shell''] else []) @
     (if str_includes srcPath ''Code/User/'' then [''vscode''] else []) @
     (if str_includes srcPath ''PowerShell/'' then [''powershell''] else []) @
     (if str_includes srcPath ''start_menu'' then [''start_menu''] else []) @
     (if str_includes srcPath ''gitconfig'' then [''git''] else []) @
     (if str_includes srcPath ''smart-search'' \<or> str_includes srcPath ''smart_search''
      then [''smart_search''] else [])"

definition inferPlatforms :: "string \<Rightarrow> Platform list" where
  "inferPlatforms srcPath =
     (if str_includes srcPath ''PowerShell/'' then [''windows'']
      else if str_includes srcPath ''dot_bashrc'' \<or> str_includes srcPath ''dot_zshrc''
        then [''linux'', ''darwin'']
      else if str_includes srcPath ''Code/User/'' then [''linux'', ''darwin'', ''windows'']
      else if str_includes srcPath ''bin/executable_'' \<or> str_includes srcPath ''scripts/''
        then [''linux'', ''darwin'']
      else [''linux'', ''darwin'', ''windows''])"

text \<open>\<open>buildFileMapping\<close>; \<open>x || d\<close> is \<open>d\<close> when \<open>x\<close> is undefined, the empty string or
  \<open>false\<close>, and an array is never replaced.\<close>

definition buildFileMapping ::
    "string \<Rightarrow> string list option \<Rightarrow> Platform list option \<Rightarrow> FileMapping" where
  "buildFileMapping srcPath reqModules plats =
     (let baseMapping = mapFile srcPath in
      \<lparr> sourcePath = srcPath,
        deployPath = p_deployPath baseMapping,
        isTemplate = p_isTemplate baseMapping,
        isExecutable = p_isExecutable baseMapping,
        requiredModules = (case reqModules of Some ms \<Rightarrow> ms | None \<Rightarrow> inferModules srcPath),
        platforms = (case plats of Some ps \<Rightarrow> ps | None \<Rightarrow> inferPlatforms srcPath) \<rparr>)"

section \<open>The files route\<close>

text \<open>
  \<open>GET /api/files\<close> after its fetches: the configuration is parsed, the ignore file and
  the list of source files are there. \<open>files_loop\<close> is the loop over the source files;
  each \<open>continue\<close> of the source is a branch that goes on with the rest.
\<close>

definition files_skipped :: "string \<Rightarrow> bool" where
  "files_skipped srcPath =
     (endsWith srcPath ''/'' \<or> srcPath = ''.git'' \<or> startsWith srcPath ''.git/'' \<or>
      srcPath = ''LICENSE'' \<or> srcPath = ''README.md'' \<or> srcPath = ''CLAUDE.md'' \<or>
      startsWith srcPath ''docs/'' \<or> srcPath = ''.gitignore'' \<or>
      srcPath = ''.pre-commit-config.yaml'' \<or> srcPath = ''.secrets.baseline'' \<or>
      srcPath = ''Makefile'')"

definition strip_home :: "string \<Rightarrow> string" where
  "strip_home path = (if startsWith path ''~/'' then drop 2 path else path)"

fun files_loop ::
    "(string \<Rightarrow> string \<Rightarrow> bool) \<Rightarrow> string list \<Rightarrow> DotfilesConfig \<Rightarrow> Platform \<Rightarrow> string list
      \<Rightarrow> FileMapping list" where
  "files_loop host ignorePatterns config platform [] = []"
| "files_loop host ignorePatterns config platform (srcPath # rest) =
     (if files_skipped srcPath then files_loop host ignorePatterns config platform rest
      else
        (let fileMapping = buildFileMapping srcPath None None;
             deployPathForIgnore = strip_home (deployPath fileMapping)
         in if IgnoreParser_shouldIgnore host deployPathForIgnore ignorePatterns
              then files_loop host ignorePatterns config platform rest
            else if platform \<notin> set (platforms fileMapping)
              then files_loop host ignorePatterns config platform rest
            else if \<not> list_all (module_enabled config) (requiredModules fileMapping)
              then files_loop host ignorePatterns config platform rest
            else fileMapping # files_loop host ignorePatterns config platform rest))"

definition GET_files ::
    "(string \<Rightarrow> string \<Rightarrow> bool) \<Rightarrow> DotfilesConfig \<Rightarrow> string \<Rightarrow> string list \<Rightarrow> Platform
      \<Rightarrow> FileMapping list" where
  "GET_files host config ignoreContent allSourceFiles platform =
     files_loop host (getIgnorePatterns ignoreContent config platform) config platform
       allSourceFiles"

section \<open>The simulate route\<close>

text \<open>
  The copy \<open>JSON.parse(JSON.stringify(baseConfig))\<close>. A number that is not finite comes
  back as null and a timestamp as the string of its ISO text; every other value of the
  model comes back as it is.
\<close>

fun json_value :: "jsval \<Rightarrow> jsval" where
  "json_value JNaN = JNull"
| "json_value JInfinity = JNull"
| "json_value JNegInfinity = JNull"
| "json_value (JDate stamp) = JStr stamp"
| "json_value v = v"

fun json_module :: "ModuleValue \<Rightarrow> ModuleValue" where
  "json_module (ModuleObject props) = ModuleObject (\<lambda>propertyName. map_option json_value (props propertyName))"
| "json_module (ModuleScalar v) = ModuleScalar (json_value v)"

definition jsonCopy :: "DotfilesConfig \<Rightarrow> DotfilesConfig" where
  "jsonCopy config =
     config\<lparr>data := (data config)\<lparr>
       repoPolicy := map_option (\<lambda>policy. policy\<lparr>requiredApprovals := json_value (requiredApprovals policy)\<rparr>)
                       (repoPolicy (data config)),
       modules := (\<lambda>moduleName. map_option json_module (modules (data config) moduleName))\<rparr>\<rparr>"

text \<open>
  The host objects that the assignment of \<open>applyModuleChanges\<close> can reach. Every object
  of the copy inherits from \<open>Object.prototype\<close>, so \<open>moduleName in newConfig.data.modules\<close>
  holds for an own key of the module map and also for a name that \<open>Object.prototype\<close>
  has: \<open>__proto__\<close>, through which the module map gives \<open>Object.prototype\<close> itself; the
  names of its built-in functions, through which it gives the function; and \<open>enabled\<close>,
  once an earlier assignment has put that property on \<open>Object.prototype\<close>, through which
  it gives the boolean that was put there. \<open>prototype_enabled\<close> is that property when it
  is there, \<open>function_enabled\<close> lists the \<open>enabled\<close> properties set on the built-in
  functions, the latest first.
\<close>

record HostObjects =
  prototype_enabled :: "bool option"
  function_enabled :: "(string \<times> bool) list"

definition prototype_functions :: "string list" where
  "prototype_functions =
     [''constructor'', ''__defineGetter__'', ''__defineSetter__'', ''hasOwnProperty'',
      ''__lookupGetter__'', ''__lookupSetter__'', ''isPrototypeOf'', ''propertyIsEnumerable'',
      ''toString'', ''valueOf'', ''toLocaleString'']"

datatype assign_target =
  OwnValue ModuleValue | ObjectPrototype | PrototypeFunction string | InheritedEnabled bool

text \<open>\<open>None\<close> when \<open>moduleName in newConfig.data.modules\<close> is false, and what
  \<open>newConfig.data.modules[moduleName]\<close> is otherwise. An own key comes first.\<close>

definition lookup_in ::
    "HostObjects \<Rightarrow> (string \<rightharpoonup> ModuleValue) \<Rightarrow> string \<Rightarrow> assign_target option" where
  "lookup_in objs ms moduleName =
     (case ms moduleName of
        Some v \<Rightarrow> Some (OwnValue v)
      | None \<Rightarrow>
          if moduleName = ''__proto__'' then Some ObjectPrototype
          else if moduleName \<in> set prototype_functions then Some (PrototypeFunction moduleName)
          else if moduleName = ''enabled'' then map_option InheritedEnabled (prototype_enabled objs)
          else None)"

text \<open>
  One turn of the loop of \<open>applyModuleChanges\<close>: the test and the assignment
  \<open>newConfig.data.modules[moduleName].enabled = enabled\<close>. On an object of the copy the
  assignment sets the own property. On \<open>Object.prototype\<close> and on a built-in function it
  sets the property of that host object. On null it throws a \<open>TypeError\<close>, and so it does
  on a primitive: the file is a module, whose code is strict. (A timestamp would take the
  property, which the model of a timestamp cannot hold; the copy leaves no timestamp, see
  \<open>jsonCopy_no_timestamp\<close>, so \<open>applyModuleChanges\<close> never comes to that case.)

  The result is the host objects after the turn and either the error thrown or the
  configuration.
\<close>

datatype js_error = TypeError

definition setEnabled ::
    "HostObjects \<Rightarrow> DotfilesConfig \<Rightarrow> string \<times> bool \<Rightarrow> HostObjects \<times> (js_error + DotfilesConfig)" where
  "setEnabled objs newConfig change =
     (case change of (moduleName, enabled) \<Rightarrow>
        (case lookup_in objs (modules (data newConfig)) moduleName of
           None \<Rightarrow> (objs, Inr newConfig)
         | Some (OwnValue (ModuleObject props)) \<Rightarrow>
             (objs, Inr (newConfig\<lparr>data := (data newConfig)\<lparr>modules :=
                (modules (data newConfig))
                  (moduleName \<mapsto> ModuleObject (props(''enabled'' \<mapsto> JBool enabled)))\<rparr>\<rparr>))
         | Some (OwnValue (ModuleScalar (JDate stamp))) \<Rightarrow> (objs, Inr newConfig)
         | Some (OwnValue (ModuleScalar v)) \<Rightarrow> (objs, Inl TypeError)
         | Some ObjectPrototype \<Rightarrow> (objs\<lparr>prototype_enabled := Some enabled\<rparr>, Inr newConfig)
         | Some (PrototypeFunction f) \<Rightarrow>
             (objs\<lparr>function_enabled := (f, enabled) # function_enabled objs\<rparr>, Inr newConfig)
         | Some (InheritedEnabled b) \<Rightarrow> (objs, Inl TypeError)))"

text \<open>The loop over \<open>Object.entries(moduleChanges)\<close>, in the order of the entries; an
  error ends it, and what was written before stays written.\<close>

fun changes_loop ::
    "HostObjects \<Rightarrow> DotfilesConfig \<Rightarrow> (string \<times> bool) list \<Rightarrow> HostObjects \<times> (js_error + DotfilesConfig)" where
  "changes_loop objs newConfig [] = (objs, Inr newConfig)"
| "changes_loop objs newConfig (change # rest) =
     (case setEnabled objs newConfig change of
        (objs', Inl e) \<Rightarrow> (objs', Inl e)
      | (objs', Inr newConfig') \<Rightarrow> changes_loop objs' newConfig' rest)"

definition applyModuleChanges ::
    "HostObjects \<Rightarrow> DotfilesConfig \<Rightarrow> (string \<times> bool) list \<Rightarrow> HostObjects \<times> (js_error + DotfilesConfig)" where
  "applyModuleChanges objs baseConfig moduleChanges =
     changes_loop objs (jsonCopy baseConfig) moduleChanges"

text \<open>
  \<open>getFilesForConfig\<close>, the helper of \<open>POST /api/simulate\<close>: \<open>simulate_loop\<close> is its loop
  over the source files.
\<close>

definition simulate_skipped :: "string \<Rightarrow> bool" where
  "simulate_skipped srcPath =
     (srcPath = ''.chezmoi.yaml'' \<or> srcPath = ''.chezmoiignore'' \<or>
      str_includes srcPath ''.git/'' \<or> str_includes srcPath ''node_modules/'' \<or>
      startsWith srcPath ''.'')"

definition fullMapping :: "string \<Rightarrow> Platform \<Rightarrow> FileMapping" where
  "fullMapping srcPath platform =
     (let fileMapping = mapFile srcPath in
      \<lparr> sourcePath = srcPath,
        deployPath = (if p_deployPath fileMapping = [] then srcPath else p_deployPath fileMapping),
        isTemplate = p_isTemplate fileMapping,
        isExecutable = p_isExecutable fileMapping,
        requiredModules = (case p_requiredModules fileMapping of Some ms \<Rightarrow> ms | None \<Rightarrow> []),
        platforms = (case p_platforms fileMapping of Some ps \<Rightarrow> ps | None \<Rightarrow> [platform]) \<rparr>)"

fun simulate_loop ::
    "(string \<Rightarrow> string \<Rightarrow> bool) \<Rightarrow> string list \<Rightarrow> DotfilesConfig \<Rightarrow> Platform \<Rightarrow> string list
      \<Rightarrow> FileMapping list" where
  "simulate_loop host ignorePatterns config platform [] = []"
| "simulate_loop host ignorePatterns config platform (srcPath # rest) =
     (if simulate_skipped srcPath then simulate_loop host ignorePatterns config platform rest
      else
        (let mapping = fullMapping srcPath platform
         in if IgnoreParser_shouldIgnore host (sourcePath mapping) ignorePatterns
              then simulate_loop host ignorePatterns config platform rest
            else if platform \<notin> set (platforms mapping)
              then simulate_loop host ignorePatterns config platform rest
            else if \<not> list_all (module_enabled config) (requiredModules mapping)
              then simulate_loop host ignorePatterns config platform rest
            else mapping # simulate_loop host ignorePatterns config platform rest))"

definition getFilesForConfig ::
    "(string \<Rightarrow> string \<Rightarrow> bool) \<Rightarrow> string \<Rightarrow> string list \<Rightarrow> Platform \<Rightarrow> DotfilesConfig
      \<Rightarrow> FileMapping list" where
  "getFilesForConfig host ignoreContent allSourceFiles platform config =
     simulate_loop host (getIgnorePatterns ignoreContent config platform) config platform
       allSourceFiles"

text \<open>
  \<open>POST /api/simulate\<close>. The body's \<open>moduleChanges\<close> is \<open>None\<close> when it is missing or
  no object, its \<open>platform\<close> is \<open>None\<close> when it is missing. The three fetches and the
  parse of the configuration are the host's: \<open>None\<close> stands for one that throws. The
  handler answers 400 to a body without changes before it fetches anything, and 500 to
  whatever throws. It fetches and parses the configuration and the ignore file, applies
  the changes, and only then fetches the list of source files. \<open>simulate\<close> is the rest of
  the handler, from the two resolutions on. The result is the host objects after the
  request and the answer.
\<close>

record SimulateResponse =
  filesAdded :: "FileMapping list"
  filesRemoved :: "FileMapping list"
  aliasesAdded :: "string list"
  aliasesRemoved :: "string list"
  totalFilesBefore :: nat
  totalFilesAfter :: nat
  resp_platform :: Platform
  resp_moduleChanges :: "(string \<times> bool) list"

datatype 'a http = Json 'a | BadRequest | ServerError

definition simulate ::
    "(string \<Rightarrow> string \<Rightarrow> bool) \<Rightarrow> DotfilesConfig \<Rightarrow> DotfilesConfig \<Rightarrow> string \<Rightarrow> string list
      \<Rightarrow> (string \<times> bool) list \<Rightarrow> Platform \<Rightarrow> SimulateResponse" where
  "simulate host baseConfig simulatedConfig ignoreContent allSourceFiles moduleChanges platform =
     (let baseFiles = getFilesForConfig host ignoreContent allSourceFiles platform baseConfig;
          simulatedFiles = getFilesForConfig host ignoreContent allSourceFiles platform simulatedConfig;
          baseFilePaths = set (map deployPath baseFiles);
          simulatedFilePaths = set (map deployPath simulatedFiles)
      in \<lparr> filesAdded = filter (\<lambda>f. deployPath f \<notin> baseFilePaths) simulatedFiles,
           filesRemoved = filter (\<lambda>f. deployPath f \<notin> simulatedFilePaths) baseFiles,
           aliasesAdded = [],
           aliasesRemoved = [],
           totalFilesBefore = length baseFiles,
           totalFilesAfter = length simulatedFiles,
           resp_platform = platform,
           resp_moduleChanges = moduleChanges \<rparr>)"

definition POST ::
    "(string \<Rightarrow> string \<Rightarrow> bool) \<Rightarrow> HostObjects \<Rightarrow> (string \<times> bool) list option \<Rightarrow> Platform option
      \<Rightarrow> DotfilesConfig option \<Rightarrow> string option \<Rightarrow> string list option
      \<Rightarrow> HostObjects \<times> SimulateResponse http" where
  "POST host objs body_moduleChanges body_platform fetched_config fetched_ignore fetched_files =
     (case body_moduleChanges of
        None \<Rightarrow> (objs, BadRequest)
      | Some moduleChanges \<Rightarrow>
          (case (fetched_config, fetched_ignore) of
             (Some baseConfig, Some ignoreContent) \<Rightarrow>
               (case applyModuleChanges objs baseConfig moduleChanges of
                  (objs', Inl e) \<Rightarrow> (objs', ServerError)
                | (objs', Inr simulatedConfig) \<Rightarrow>
                    (case fetched_files of
                       None \<Rightarrow> (objs', ServerError)
                     | Some allSourceFiles \<Rightarrow>
                         (objs', Json (simulate host baseConfig simulatedConfig ignoreContent
                            allSourceFiles moduleChanges
                            (case body_platform of None \<Rightarrow> ''linux'' | Some p \<Rightarrow> p)))))
           | _ \<Rightarrow> (objs, ServerError)))"

section \<open>Example inputs\<close>

text \<open>A configuration with the given module map, and the inputs of the scenarios below.\<close>

definition example_config :: "(string \<rightharpoonup> ModuleValue) \<Rightarrow> DotfilesConfig" where
  "example_config ms =
     \<lparr> data = \<lparr> gitUser = \<lparr>name = ''user'', email = ''user@example.org''\<rparr>, windows = False,
                github = None, repoPolicy = None, modules = ms \<rparr>,
       encryption = ''age'', age = \<lparr>identity = ''key.txt'', recipient = ''age1''\<rparr> \<rparr>"

definition shell_disabled :: DotfilesConfig where
  "shell_disabled = example_config [''shell'' \<mapsto> ModuleObject [''enabled'' \<mapsto> JBool False]]"

definition shell_enabled :: DotfilesConfig where
  "shell_enabled = example_config [''shell'' \<mapsto> ModuleObject [''enabled'' \<mapsto> JBool True]]"

definition shell_only :: DotfilesConfig where
  "shell_only = example_config
     [''shell'' \<mapsto> ModuleObject [''enabled'' \<mapsto> JBool True],
      ''git'' \<mapsto> ModuleObject [''enabled'' \<mapsto> JBool False]]"

definition null_module :: DotfilesConfig where
  "null_module = example_config
     [''shell'' \<mapsto> ModuleObject [''enabled'' \<mapsto> JBool False], ''tmux'' \<mapsto> ModuleScalar JNull]"

definition clean_objects :: HostObjects where
  "clean_objects = \<lparr>prototype_enabled = None, function_enabled = []\<rparr>"

definition no_host :: "string \<Rightarrow> string \<Rightarrow> bool" where
  "no_host source s = False"

definition platform_blocks :: string where
  \<open>platform_blocks =
     ''{{- if eq .chezmoi.os "windows" }}'' @ [CHR 0x0A] @
     ''foo/**'' @ [CHR 0x0A] @
     ''{{- else }}'' @ [CHR 0x0A] @
     ''bar/**'' @ [CHR 0x0A] @
     ''{{- end }}''\<close>

section \<open>Path Mapper: the home prefix\<close>

lemma split_not_Nil: "split s sep \<noteq> []"
  by (induction s) (auto split: list.splits)

lemma join_split: "join (split s sep) [sep] = s"
proof (induction s)
  case Nil
  show ?case by simp
next
  case (Cons c cs)
  obtain part parts where sp: "split cs sep = part # parts"
    using split_not_Nil [of cs sep] by (cases "split cs sep") auto
  show ?case
  proof (cases "c = sep")
    case True
    with Cons sp show ?thesis by simp
  next
    case False
    with Cons sp show ?thesis by (cases parts) auto
  qed
qed

lemma split_no_sep: "sep \<notin> set p \<Longrightarrow> split p sep = [p]"
  by (induction p) auto

lemma split_append_sep:
  "sep \<notin> set p \<Longrightarrow> split (p @ sep # rest) sep = p # split rest sep"
  by (induction p) auto

lemma split_join:
  "parts \<noteq> [] \<Longrightarrow> \<forall>p \<in> set parts. sep \<notin> set p \<Longrightarrow> split (join parts [sep]) sep = parts"
proof (induction parts "[sep]" rule: join.induct)
  case 1
  then show ?case by simp
next
  case (2 part)
  then show ?case by (simp add: split_no_sep)
next
  case (3 part nxt parts)
  then show ?case by (simp add: split_append_sep)
qed

lemma split_parts_no_sep: "p \<in> set (split s sep) \<Longrightarrow> sep \<notin> set p"
proof (induction s arbitrary: p)
  case Nil
  then show ?case by simp
next
  case (Cons c cs)
  then show ?case
    by (cases "split cs sep") (auto split: if_splits)
qed

lemma hd_split_Nil: "hd (split s sep) = [] \<longleftrightarrow> s = [] \<or> startsWith s [sep]"
  by (cases s) (auto split: list.splits)

lemma startsWith_join:
  "startsWith (join parts [sep]) [sep] \<Longrightarrow> \<forall>p \<in> set parts. \<not> startsWith p [sep]
     \<Longrightarrow> hd parts = [] \<and> tl parts \<noteq> []"
proof (induction parts "[sep]" rule: join.induct)
  case 1
  then show ?case by simp
next
  case (2 part)
  then show ?case by simp
next
  case (3 part nxt parts)
  then show ?case by (cases part) auto
qed

lemma startsWith_hd: "startsWith p [c] \<longleftrightarrow> p \<noteq> [] \<and> hd p = c"
  by (cases p) auto

lemma replace_dot_no_sep: "CHR ''/'' \<notin> set p \<Longrightarrow> \<not> startsWith (replace_dot p) ''/''"
  by (cases p) (auto simp: replace_dot_def)

lemma replace_dot_Nil: "replace_dot p = [] \<longleftrightarrow> p = []"
  by (auto simp: replace_dot_def)

lemma strip_executable_set: "set (strip_executable f) \<subseteq> set f"
  by (auto simp: strip_executable_def dest: in_set_dropD)

lemma strip_tmpl_set: "set (strip_tmpl f) \<subseteq> set f"
  by (auto simp: strip_tmpl_def dest: in_set_takeD)

text \<open>The path that \<open>mapFile\<close> has built when it comes to the home prefix.\<close>

definition mapped_path :: "string \<Rightarrow> string" where
  "mapped_path s =
     (let pathParts = split s CHR ''/'';
          filename0 = last pathParts;
          filename1 = (if startsWith filename0 ''executable_'' then strip_executable filename0 else filename0);
          filename2 = (if endsWith filename1 ''.tmpl'' then strip_tmpl filename1 else filename1)
      in join (map replace_dot (split (join (butlast pathParts @ [filename2]) ''/'') CHR ''/'')) ''/'')"

lemma mapFile_deployPath:
  "p_deployPath (mapFile s) =
     (if startsWith (mapped_path s) ''/'' then mapped_path s else ''~/'' @ mapped_path s)"
  by (auto simp: mapFile_def mapped_path_def Let_def startsWith_hd)

lemma mapped_path_slash:
  "startsWith (mapped_path s) ''/'' \<longleftrightarrow> startsWith s ''/''"
proof -
  define pathParts where "pathParts = split s CHR ''/''"
  define filename0 where "filename0 = last pathParts"
  define filename1 where
    "filename1 = (if startsWith filename0 ''executable_'' then strip_executable filename0 else filename0)"
  define filename2 where
    "filename2 = (if endsWith filename1 ''.tmpl'' then strip_tmpl filename1 else filename1)"
  define L where "L = butlast pathParts @ [filename2]"
  have ne: "pathParts \<noteq> []"
    by (simp add: pathParts_def split_not_Nil)
  have parts_free: "\<forall>p \<in> set pathParts. CHR ''/'' \<notin> set p"
    using split_parts_no_sep by (auto simp: pathParts_def)
  have "filename0 \<in> set pathParts"
    using ne by (simp add: filename0_def)
  with parts_free have "CHR ''/'' \<notin> set filename0" by blast
  then have "CHR ''/'' \<notin> set filename1"
    using strip_executable_set [of filename0] by (auto simp: filename1_def)
  then have f2: "CHR ''/'' \<notin> set filename2"
    using strip_tmpl_set [of filename1] by (auto simp: filename2_def)
  have L_free: "\<forall>p \<in> set L. CHR ''/'' \<notin> set p"
    using parts_free f2 by (auto simp: L_def dest: in_set_butlastD)
  have L_ne: "L \<noteq> []" by (simp add: L_def)
  have sj: "split (join L ''/'') CHR ''/'' = L"
    using split_join [OF L_ne L_free] .
  have "mapped_path s = join (map replace_dot (split (join L ''/'') CHR ''/'')) ''/''"
    unfolding mapped_path_def Let_def L_def filename2_def filename1_def filename0_def pathParts_def ..
  then have mp: "mapped_path s = join (map replace_dot L) ''/''"
    by (simp only: sj)
  have hdL: "butlast pathParts \<noteq> [] \<Longrightarrow> hd L = hd pathParts"
    using ne by (cases pathParts) (auto simp: L_def)
  show ?thesis
  proof
    assume a: "startsWith (mapped_path s) ''/''"
    have "\<forall>p \<in> set (map replace_dot L). \<not> startsWith p ''/''"
      using L_free replace_dot_no_sep by auto
    with a mp have h: "hd (map replace_dot L) = [] \<and> tl (map replace_dot L) \<noteq> []"
      using startsWith_join [of "map replace_dot L" "CHR ''/''"] by simp
    then have bl: "butlast pathParts \<noteq> []"
      by (auto simp: L_def)
    from h L_ne have "replace_dot (hd L) = []"
      by (simp add: hd_map)
    then have "hd pathParts = []"
      using hdL [OF bl] by (simp add: replace_dot_Nil)
    then have "s = [] \<or> startsWith s ''/''"
      by (simp add: pathParts_def hd_split_Nil)
    moreover have "s \<noteq> []"
      using bl by (auto simp: pathParts_def)
    ultimately show "startsWith s ''/''" by blast
  next
    assume a: "startsWith s ''/''"
    then obtain cs where s: "s = CHR ''/'' # cs"
      by (cases s) auto
    obtain q qs where sp: "split cs CHR ''/'' = q # qs"
      using split_not_Nil [of cs "CHR ''/''"] by (cases "split cs CHR ''/''") auto
    have pp: "pathParts = [] # q # qs"
      by (simp add: pathParts_def s sp)
    have "L = [] # (butlast (q # qs) @ [filename2])"
      by (simp add: L_def pp)
    then obtain r rs where "L = [] # r # rs"
      by (cases "butlast (q # qs) @ [filename2]") auto
    then show "startsWith (mapped_path s) ''/''"
      by (simp add: mp replace_dot_def)
  qed
qed

text \<open>
  Claim C7, as amended. The claim says that the deploy path of every source path begins
  with the home prefix. \<open>mapFile\<close> adds the prefix unless the mapped path begins with a
  slash, and that is the case exactly when the source path does. So for every source
  path that does not begin with a slash the deploy path begins with \<open>~/\<close>, and for
  every source path that begins with a slash it begins with that slash, without the
  prefix. Every string is accepted: \<open>mapFile\<close> has no failing branch.
\<close>

theorem mapFile_home_prefix:
  "(\<not> startsWith s ''/'' \<longrightarrow> startsWith (p_deployPath (mapFile s)) ''~/'') \<and>
   (startsWith s ''/'' \<longrightarrow> startsWith (p_deployPath (mapFile s)) ''/'')"
  by (simp add: mapFile_deployPath mapped_path_slash)

theorem mapFile_home_prefix_witness:
  "\<not> startsWith ''dot_config/shell/common.sh.tmpl'' ''/'' \<and>
   startsWith (p_deployPath (mapFile ''dot_config/shell/common.sh.tmpl'')) ''~/'' \<and>
   startsWith ''/etc/hosts'' ''/'' \<and>
   startsWith (p_deployPath (mapFile ''/etc/hosts'')) ''/''"
  using mapFile_home_prefix [of "''dot_config/shell/common.sh.tmpl''"]
    mapFile_home_prefix [of "''/etc/hosts''"]
  by simp

text \<open>The claim as stated fails on an absolute source path, which is returned as it is.\<close>

theorem mapFile_absolute_counterexample:
  "\<not> (\<forall>s. startsWith (p_deployPath (mapFile s)) ''~/'')"
proof
  assume "\<forall>s. startsWith (p_deployPath (mapFile s)) ''~/''"
  then have "startsWith (p_deployPath (mapFile ''/etc/hosts'')) ''~/''" ..
  moreover have "p_deployPath (mapFile ''/etc/hosts'') = ''/etc/hosts''"
    by code_simp
  ultimately show False by simp
qed

section \<open>Simulation: mappings without inference\<close>

lemma simulate_loop_fields:
  "f \<in> set (simulate_loop host pats config platform srcs) \<Longrightarrow>
     requiredModules f = [] \<and> platforms f = [platform]"
  by (induction srcs) (auto simp: Let_def fullMapping_def mapFile_def split: if_splits)

text \<open>
  Claim C2. \<open>mapFile\<close> supplies neither the required modules nor the platforms. So
  every mapping that the simulate route builds from a source path, and with it every
  mapping that its resolver \<open>getFilesForConfig\<close> returns, has no required modules and the
  requested platform as its only platform, whatever the source paths, the ignore file, the
  configuration and the platform: module inference is never applied.
\<close>

theorem simulate_mappings_without_inference:
  "p_requiredModules (mapFile srcPath) = None \<and> p_platforms (mapFile srcPath) = None \<and>
   requiredModules (fullMapping srcPath platform) = [] \<and>
   platforms (fullMapping srcPath platform) = [platform] \<and>
   (\<forall>f \<in> set (getFilesForConfig host ignoreContent allSourceFiles platform config).
      requiredModules f = [] \<and> platforms f = [platform])"
  using simulate_loop_fields
  by (auto simp: getFilesForConfig_def fullMapping_def mapFile_def Let_def)

theorem simulate_mappings_without_inference_witness:
  "getFilesForConfig no_host [] [''dot_bashrc''] ''linux'' shell_disabled \<noteq> [] \<and>
   requiredModules (hd (getFilesForConfig no_host [] [''dot_bashrc''] ''linux'' shell_disabled)) = [] \<and>
   platforms (hd (getFilesForConfig no_host [] [''dot_bashrc''] ''linux'' shell_disabled)) = [''linux'']"
proof -
  have ne: "getFilesForConfig no_host [] [''dot_bashrc''] ''linux'' shell_disabled \<noteq> []"
    by code_simp
  then have "hd (getFilesForConfig no_host [] [''dot_bashrc''] ''linux'' shell_disabled)
      \<in> set (getFilesForConfig no_host [] [''dot_bashrc''] ''linux'' shell_disabled)"
    by simp
  with simulate_mappings_without_inference
      [of "''dot_bashrc''" "''linux''" no_host "[]" "[''dot_bashrc'']" shell_disabled] ne
  show ?thesis by blast
qed

section \<open>Deployment Resolver: platform and modules of what is returned\<close>

lemma files_loop_sound:
  "f \<in> set (files_loop host pats config platform srcs) \<Longrightarrow>
     platform \<in> set (platforms f) \<and> (\<forall>m \<in> set (requiredModules f). module_enabled config m)"
  by (induction srcs) (auto simp: Let_def list_all_iff split: if_splits)

lemma simulate_loop_sound:
  "f \<in> set (simulate_loop host pats config platform srcs) \<Longrightarrow>
     platform \<in> set (platforms f) \<and> (\<forall>m \<in> set (requiredModules f). module_enabled config m)"
  by (induction srcs) (auto simp: Let_def list_all_iff split: if_splits)

text \<open>
  Claim C9. Every mapping returned by the resolver of the files route and by the resolver
  of the simulate route lists the target platform among its platforms, and each of its
  required modules is a module of the configuration whose \<open>enabled\<close> flag holds
  (\<open>module_enabled\<close>: the module is there and its flag is truthy, which for a boolean
  flag is \<open>true\<close>).
\<close>

theorem resolver_platform_and_modules:
  "(\<forall>f \<in> set (GET_files host config ignoreContent allSourceFiles platform).
      platform \<in> set (platforms f) \<and> (\<forall>m \<in> set (requiredModules f). module_enabled config m)) \<and>
   (\<forall>f \<in> set (getFilesForConfig host ignoreContent allSourceFiles platform config).
      platform \<in> set (platforms f) \<and> (\<forall>m \<in> set (requiredModules f). module_enabled config m))"
  using files_loop_sound simulate_loop_sound
  by (simp add: GET_files_def getFilesForConfig_def)

theorem resolver_platform_and_modules_witness:
  "GET_files no_host shell_enabled [] [''dot_bashrc''] ''linux'' \<noteq> [] \<and>
   ''linux'' \<in> set (platforms (hd (GET_files no_host shell_enabled [] [''dot_bashrc''] ''linux''))) \<and>
   list_all (module_enabled shell_enabled)
     (requiredModules (hd (GET_files no_host shell_enabled [] [''dot_bashrc''] ''linux''))) \<and>
   getFilesForConfig no_host [] [''dot_bashrc''] ''linux'' shell_enabled \<noteq> [] \<and>
   ''linux'' \<in> set (platforms (hd (getFilesForConfig no_host [] [''dot_bashrc''] ''linux'' shell_enabled)))"
proof -
  have ne: "GET_files no_host shell_enabled [] [''dot_bashrc''] ''linux'' \<noteq> []"
    by code_simp
  then have g: "hd (GET_files no_host shell_enabled [] [''dot_bashrc''] ''linux'')
      \<in> set (GET_files no_host shell_enabled [] [''dot_bashrc''] ''linux'')"
    by simp
  have ne': "getFilesForConfig no_host [] [''dot_bashrc''] ''linux'' shell_enabled \<noteq> []"
    by code_simp
  then have s: "hd (getFilesForConfig no_host [] [''dot_bashrc''] ''linux'' shell_enabled)
      \<in> set (getFilesForConfig no_host [] [''dot_bashrc''] ''linux'' shell_enabled)"
    by simp
  from resolver_platform_and_modules
      [of no_host shell_enabled "[]" "[''dot_bashrc'']" "''linux''"] g s ne ne'
  show ?thesis unfolding list_all_iff by blast
qed

section \<open>Ignore-Spec Resolver: platform blocks\<close>

text \<open>
  Claim C5. For every configuration, the ignore text with a block for \<open>windows\<close> that
  lists \<open>foo/**\<close> and an \<open>else\<close> branch that lists \<open>bar/**\<close> resolves to exactly
  \<open>bar/**\<close> on \<open>linux\<close> and to exactly \<open>foo/**\<close> on \<open>windows\<close>.
\<close>

theorem parse_platform_blocks:
  "IgnoreParser_parse platform_blocks config ''linux'' = [''bar/**''] \<and>
   IgnoreParser_parse platform_blocks config ''windows'' = [''foo/**'']"
  by code_simp

section \<open>Ignore-Spec Resolver: the condition stack\<close>

lemma handleConditional_nonempty:
  "stack \<noteq> [] \<Longrightarrow> handleConditional line stack config platform \<noteq> []"
  by (cases stack rule: rev_cases; cases "butlast stack") (auto simp: handleConditional_def Let_def)

lemma parse_line_nonempty:
  "conditionStack st \<noteq> [] \<Longrightarrow> conditionStack (parse_line config platform st line) \<noteq> []"
  by (simp add: parse_line_def Let_def handleConditional_nonempty)

lemma parse_states_nonempty:
  "s \<in> set (parse_states config platform st lines) \<Longrightarrow> conditionStack st \<noteq> [] \<Longrightarrow>
     conditionStack s \<noteq> []"
proof (induction lines arbitrary: st)
  case Nil
  then show ?case by simp
next
  case (Cons line lines)
  from Cons.prems(1) consider "s = st"
    | "s \<in> set (parse_states config platform (parse_line config platform st line) lines)"
    by auto
  then show ?case
  proof cases
    case 1
    with Cons.prems(2) show ?thesis by simp
  next
    case 2
    then show ?thesis
      using Cons.IH parse_line_nonempty [OF Cons.prems(2)] by blast
  qed
qed

lemma parse_states_not_Nil: "parse_states config platform st lines \<noteq> []"
  by (cases lines) auto

lemma last_parse_states:
  "last (parse_states config platform st lines) = foldl (parse_line config platform) st lines"
  by (induction lines arbitrary: st) (auto simp: parse_states_not_Nil)

lemma handleConditional_steps:
  "handleConditional line stack config platform
     = last (stack # conditional_steps line stack config platform)"
  by (simp add: handleConditional_def conditional_steps_def Let_def)

lemma conditional_steps_nonempty:
  "stack \<noteq> [] \<Longrightarrow> s \<in> set (conditional_steps line stack config platform) \<Longrightarrow> s \<noteq> []"
  by (cases stack rule: rev_cases; cases "butlast stack")
    (auto simp: conditional_steps_def Let_def split: if_splits)

text \<open>
  Claim C6. For every ignore text, configuration and platform the condition stack starts
  as the one-element stack \<open>[true]\<close>; it has at least one element before the first line
  and after every line (\<open>parse_states\<close> lists these states, and the last of them is the
  one whose patterns \<open>parse\<close> returns); within a call of \<open>handleConditional\<close> on a stack
  that is not empty, the stack is not empty after any \<open>push\<close> or \<open>pop\<close> either
  (\<open>conditional_steps\<close> lists these stacks, and the call returns the last of them); and a
  line that \<open>handleConditional\<close> treats as an \<open>end\<close> marker leaves a stack of length one
  as it is.
\<close>

theorem condition_stack_never_empty:
  "conditionStack parse_init = [True] \<and>
   (\<forall>st \<in> set (parse_states config platform parse_init (split ignoreContent CHR 0x0A)).
      1 \<le> length (conditionStack st)) \<and>
   patterns (last (parse_states config platform parse_init (split ignoreContent CHR 0x0A)))
     = IgnoreParser_parse ignoreContent config platform \<and>
   (\<forall>line stack.
      handleConditional line stack config platform
        = last (stack # conditional_steps line stack config platform) \<and>
      (1 \<le> length stack \<longrightarrow>
         (\<forall>s \<in> set (conditional_steps line stack config platform). 1 \<le> length s))) \<and>
   (\<forall>line stack.
      length stack = 1 \<and> \<not> str_includes (trim line) ''{{- if '' \<and>
      \<not> str_includes (trim line) ''{{- else'' \<and> str_includes (trim line) ''{{- end''
      \<longrightarrow> handleConditional line stack config platform = stack)"
proof (intro conjI allI impI)
  show "conditionStack parse_init = [True]"
    by (simp add: parse_init_def)
  have "\<forall>s \<in> set (parse_states config platform parse_init (split ignoreContent CHR 0x0A)).
      conditionStack s \<noteq> []"
    using parse_states_nonempty by (auto simp: parse_init_def)
  then show "\<forall>st \<in> set (parse_states config platform parse_init (split ignoreContent CHR 0x0A)).
      1 \<le> length (conditionStack st)"
    by (auto simp: Suc_le_eq)
  show "patterns (last (parse_states config platform parse_init (split ignoreContent CHR 0x0A)))
     = IgnoreParser_parse ignoreContent config platform"
    by (simp add: last_parse_states IgnoreParser_parse_def)
next
  fix line :: string and stack :: "bool list"
  show "handleConditional line stack config platform
      = last (stack # conditional_steps line stack config platform)"
    by (rule handleConditional_steps)
next
  fix line :: string and stack :: "bool list"
  assume "1 \<le> length stack"
  then have "stack \<noteq> []" by auto
  then have "\<forall>s \<in> set (conditional_steps line stack config platform). s \<noteq> []"
    using conditional_steps_nonempty by blast
  then show "\<forall>s \<in> set (conditional_steps line stack config platform). 1 \<le> length s"
    by (auto simp: Suc_le_eq)
next
  fix line :: string and stack :: "bool list"
  assume "length stack = 1 \<and> \<not> str_includes (trim line) ''{{- if '' \<and>
      \<not> str_includes (trim line) ''{{- else'' \<and> str_includes (trim line) ''{{- end''"
  then show "handleConditional line stack config platform = stack"
    by (simp add: handleConditional_def)
qed

theorem condition_stack_never_empty_witness:
  "handleConditional ''{{- end }}'' [True] shell_disabled ''linux'' = [True] \<and>
   1 \<le> length (conditionStack (last (parse_states shell_disabled ''linux'' parse_init
          (split ''{{- end }}'' CHR 0x0A)))) \<and>
   conditional_steps ''{{- else }}'' [True, False] shell_disabled ''linux'' \<noteq> [] \<and>
   1 \<le> length (hd (conditional_steps ''{{- else }}'' [True, False] shell_disabled ''linux''))"
proof -
  note t = condition_stack_never_empty [of shell_disabled "''linux''" "''{{- end }}''"]
  have h: "length [True] = 1 \<and> \<not> str_includes (trim ''{{- end }}'') ''{{- if '' \<and>
      \<not> str_includes (trim ''{{- end }}'') ''{{- else'' \<and>
      str_includes (trim ''{{- end }}'') ''{{- end''"
    by code_simp
  from t h have a: "handleConditional ''{{- end }}'' [True] shell_disabled ''linux'' = [True]"
    by blast
  have "last (parse_states shell_disabled ''linux'' parse_init (split ''{{- end }}'' CHR 0x0A))
      \<in> set (parse_states shell_disabled ''linux'' parse_init (split ''{{- end }}'' CHR 0x0A))"
    by (simp add: parse_states_not_Nil)
  with t have b: "1 \<le> length (conditionStack (last (parse_states shell_disabled ''linux''
      parse_init (split ''{{- end }}'' CHR 0x0A))))"
    by blast
  have ne: "conditional_steps ''{{- else }}'' [True, False] shell_disabled ''linux'' \<noteq> []"
    by code_simp
  then have "hd (conditional_steps ''{{- else }}'' [True, False] shell_disabled ''linux'')
      \<in> set (conditional_steps ''{{- else }}'' [True, False] shell_disabled ''linux'')"
    by simp
  moreover have "1 \<le> length [True, False]" by simp
  ultimately have c: "1 \<le> length (hd (conditional_steps ''{{- else }}'' [True, False]
      shell_disabled ''linux''))"
    using t by blast
  from a b ne c show ?thesis by simp
qed

section \<open>Where the code departs from the claims\<close>

text \<open>
  Claim C1, at its own scenario: the module \<open>shell\<close> is disabled in the base
  configuration, the only source path is \<open>dot_bashrc\<close>, the change enables \<open>shell\<close>,
  the platform is \<open>linux\<close>, the ignore file is empty. The claim expects one added file
  and the totals 0 and 1. The simulate route answers with no added file and the totals 1
  and 1: its mappings carry no required modules, so the file is deployed before and after.
\<close>

theorem simulate_enable_shell:
  "POST host objs (Some [(''shell'', True)]) (Some ''linux'') (Some shell_disabled) (Some [])
      (Some [''dot_bashrc''])
   = (objs,
      Json \<lparr> filesAdded = [], filesRemoved = [], aliasesAdded = [], aliasesRemoved = [],
             totalFilesBefore = 1, totalFilesAfter = 1, resp_platform = ''linux'',
             resp_moduleChanges = [(''shell'', True)] \<rparr>)"
  by code_simp

text \<open>
  The files route, which builds its mappings with \<open>buildFileMapping\<close>, does what the
  claim expects of the simulation: nothing is deployed while \<open>shell\<close> is disabled, and
  \<open>~/.bashrc\<close>, requiring \<open>shell\<close>, once it is enabled.
\<close>

lemma files_route_enable_shell:
  "GET_files host shell_disabled [] [''dot_bashrc''] ''linux'' = [] \<and>
   GET_files host shell_enabled [] [''dot_bashrc''] ''linux''
   = [\<lparr> sourcePath = ''dot_bashrc'', deployPath = ''~/.bashrc'', isTemplate = False,
         isExecutable = False, requiredModules = [''shell''],
         platforms = [''linux'', ''darwin''] \<rparr>]"
  by code_simp

text \<open>
  Claim C3, at two expressions. With \<open>shell\<close> enabled and \<open>git\<close> disabled the
  conjunction of the two module checks is false for the template evaluator and true for
  the ignore evaluator, which reads the first module check only. The negation of the
  platform check for \<open>linux\<close>, on \<open>linux\<close>, is false for the template evaluator and
  true for the ignore evaluator, which reads the platform check and not the \<open>not\<close>.
\<close>

theorem evaluators_disagree:
  \<open>TemplateParser_evaluateCondition ''and .modules.shell.enabled .modules.git.enabled''
     shell_only ''linux'' = False \<and>
   IgnoreParser_evaluateCondition ''and .modules.shell.enabled .modules.git.enabled''
     shell_only ''linux'' = True \<and>
   TemplateParser_evaluateCondition ''not eq .chezmoi.os "linux"'' config ''linux'' = False \<and>
   IgnoreParser_evaluateCondition ''not eq .chezmoi.os "linux"'' config ''linux'' = True\<close>
  by code_simp

text \<open>
  Claim C4, at its own examples. The last replacement of the chain escapes the dots that
  the earlier replacements wrote: a question mark becomes an escaped dot and matches a dot
  only, a double star becomes any run of dots. So \<open>abc\<close> does not match \<open>a?c\<close> at
  either call site, and \<open>foo/bar/baz\<close> matches \<open>foo/**\<close> at the call site that anchors
  the start only (as the prefix \<open>foo/\<close>) and not at the one that anchors both ends.
\<close>

theorem glob_question_mark_is_a_dot:
  "globToRegex ''a?c'' = [CHR ''a'', backslash, CHR ''.'', CHR ''c''] \<and>
   globToRegex ''foo/**'' = ''foo/'' @ [backslash, CHR ''.'', CHR ''*''] \<and>
   IgnoreParser_shouldIgnore host ''abc'' [''a?c''] = False \<and>
   FileMapper_shouldIgnore host ''abc'' [''a?c''] = False \<and>
   IgnoreParser_shouldIgnore host ''a.c'' [''a?c''] = True \<and>
   IgnoreParser_shouldIgnore host ''foo/bar/baz'' [''foo/**''] = True \<and>
   FileMapper_shouldIgnore host ''foo/bar/baz'' [''foo/**''] = False"
  by code_simp

text \<open>
  \<open>applyModuleChanges\<close> at two inputs: a change named \<open>__proto__\<close> on a module map
  without that key, with host objects that nothing has written to, and a change of a
  module whose value is null. The copy holds no timestamp, so the loop never assigns to
  one.
\<close>

lemma jsonCopy_no_timestamp:
  "modules (data (jsonCopy config)) moduleName \<noteq> Some (ModuleScalar (JDate stamp))"
proof (cases "modules (data config) moduleName")
  case None
  then show ?thesis by (simp add: jsonCopy_def)
next
  case (Some v)
  show ?thesis
  proof (cases v)
    case (ModuleObject props)
    with Some show ?thesis by (simp add: jsonCopy_def)
  next
    case (ModuleScalar x)
    with Some show ?thesis by (cases x) (simp_all add: jsonCopy_def)
  qed
qed

lemma apply_proto:
  "applyModuleChanges clean_objects shell_disabled [(''__proto__'', True)]
     = (\<lparr>prototype_enabled = Some True, function_enabled = []\<rparr>, Inr (jsonCopy shell_disabled))"
  by (simp add: applyModuleChanges_def setEnabled_def lookup_in_def jsonCopy_def
      shell_disabled_def example_config_def clean_objects_def)

lemma apply_null:
  "applyModuleChanges objs null_module [(''tmux'', True)] = (objs, Inl TypeError)"
  by (simp add: applyModuleChanges_def setEnabled_def lookup_in_def jsonCopy_def
      null_module_def example_config_def)

text \<open>
  Claim C8, at two inputs. The claim says that a key of the changes that the module map
  does not have has no effect and raises no error, and that the function returns a
  configuration. The module map of \<open>shell_disabled\<close> has no key \<open>__proto__\<close>, yet the
  test with \<open>in\<close> accepts that name, which every object inherits, and the assignment
  writes the property \<open>enabled\<close> of \<open>Object.prototype\<close>: the host objects are not as
  they were, while the configuration returned is the plain copy. And where the module
  map has a module whose value is null, a change of that module makes the assignment
  throw: the function returns nothing and the route answers 500.
\<close>

theorem applyModuleChanges_inherited_name:
  "modules (data shell_disabled) ''__proto__'' = None \<and>
   clean_objects = \<lparr>prototype_enabled = None, function_enabled = []\<rparr> \<and>
   applyModuleChanges clean_objects shell_disabled [(''__proto__'', True)]
     = (\<lparr>prototype_enabled = Some True, function_enabled = []\<rparr>, Inr (jsonCopy shell_disabled)) \<and>
   fst (POST host clean_objects (Some [(''__proto__'', True)]) (Some ''linux'')
          (Some shell_disabled) (Some []) (Some [''dot_bashrc'']))
     = \<lparr>prototype_enabled = Some True, function_enabled = []\<rparr> \<and>
   modules (data null_module) ''tmux'' = Some (ModuleScalar JNull) \<and>
   applyModuleChanges objs null_module [(''tmux'', True)] = (objs, Inl TypeError) \<and>
   POST host objs (Some [(''tmux'', True)]) (Some ''linux'') (Some null_module) (Some [])
      (Some [''dot_bashrc''])
     = (objs, ServerError)"
proof (intro conjI)
  show "modules (data shell_disabled) ''__proto__'' = None"
    by (simp add: shell_disabled_def example_config_def)
  show "clean_objects = \<lparr>prototype_enabled = None, function_enabled = []\<rparr>"
    by (simp add: clean_objects_def)
  show "applyModuleChanges clean_objects shell_disabled [(''__proto__'', True)]
     = (\<lparr>prototype_enabled = Some True, function_enabled = []\<rparr>, Inr (jsonCopy shell_disabled))"
    by (rule apply_proto)
  show "fst (POST host clean_objects (Some [(''__proto__'', True)]) (Some ''linux'')
          (Some shell_disabled) (Some []) (Some [''dot_bashrc'']))
     = \<lparr>prototype_enabled = Some True, function_enabled = []\<rparr>"
    by (simp add: POST_def apply_proto)
  show "modules (data null_module) ''tmux'' = Some (ModuleScalar JNull)"
    by (simp add: null_module_def example_config_def)
  show "applyModuleChanges objs null_module [(''tmux'', True)] = (objs, Inl TypeError)"
    by (rule apply_null)
  show "POST host objs (Some [(''tmux'', True)]) (Some ''linux'') (Some null_module) (Some [])
      (Some [''dot_bashrc''])
     = (objs, ServerError)"
    by (simp add: POST_def apply_null)
qed

text \<open>
  Claim C10, at an expression outside the recognized forms. The claim says that an
  expression that matches none of the recognized forms evaluates to \<open>true\<close>, so that an
  unknown predicate hides nothing. \<open>ne .modules.shell.enabled true\<close> is no negation,
  conjunction or disjunction, no platform check and no module check: it is a comparison
  with the operator \<open>ne\<close>, which neither evaluator knows. Both evaluators search the
  expression for the text of a module check, find one inside it, and answer with the flag
  of the module: \<open>false\<close> where \<open>shell\<close> is disabled, on every platform. In an ignore file
  the block under that condition is dropped.
\<close>

theorem unknown_predicate_answers_false:
  "TemplateParser_evaluateCondition ''ne .modules.shell.enabled true'' shell_disabled platform
     = False \<and>
   IgnoreParser_evaluateCondition ''ne .modules.shell.enabled true'' shell_disabled platform
     = False \<and>
   IgnoreParser_parse
     (''{{- if ne .modules.shell.enabled true }}'' @ [CHR 0x0A] @ ''.bashrc'' @ [CHR 0x0A] @
      ''{{- end }}'')
     shell_disabled platform = []"
  by code_simp

end
